theory Spec2Isabelle
  imports Complex_Main "HOL-Library.Word"
begin

section \<open>The C type double\<close>

text \<open>
  A value of type double is a finite number, one of the two infinities, or a NaN
  (IEEE 754, which every target of \<^verbatim>\<open>timer.h\<close> implements). A finite double is
  represented by the real number it denotes, \<open>Fin 0\<close> being the positive zero; \<open>NZero\<close> is
  the negative zero. The two zeros compare equal and differ as divisors.

  Each arithmetic operation of C computes the exact result and rounds it to a
  representable double. The rounding is the parameter \<open>rnd\<close> of every operation below:
  \<open>rnd x\<close> is the double nearest to the real \<open>x\<close>. The range of the exponent is not part of
  this model: a result is rounded to the precision of double, and is not replaced by an
  infinity or by a zero. That is what C computes wherever the operands come from 64-bit
  integers, as they do with \<^verbatim>\<open>gettimeofday\<close> and, from the start of the process through
  hygienic call sites (below), with the performance counter: a quotient is then zero or
  of a magnitude from \<open>2 ^ -63\<close> to \<open>2 ^ 63\<close>. A quotient by a variable of the caller, or
  by the static after \<^verbatim>\<open>GET_TIME(frequency)\<close> has overwritten it, can leave the range of
  double; there C gives an infinity or a zero, and this model the rounded quotient. With
  the rounding \<open>exact\<close> below, which rounds nothing, the operations are those of exact
  arithmetic.
\<close>

datatype double = Fin real | NZero | PInf | NInf | NaN

text \<open>Whether a double is finite, the number a finite double denotes, and the sign bit.\<close>

fun dfinite :: "double \<Rightarrow> bool" where
  "dfinite (Fin x) = True"
| "dfinite NZero = True"
| "dfinite PInf = False"
| "dfinite NInf = False"
| "dfinite NaN = False"

fun dval :: "double \<Rightarrow> real" where
  "dval (Fin x) = x"
| "dval NZero = 0"
| "dval PInf = 0"
| "dval NInf = 0"
| "dval NaN = 0"

fun dsign :: "double \<Rightarrow> bool" where
  "dsign (Fin x) = (x < 0)"
| "dsign NZero = True"
| "dsign PInf = False"
| "dsign NInf = True"
| "dsign NaN = False"

text \<open>
  What the properties below need of a rounding: it is monotone, and an integer of
  magnitude at most \<open>2 ^ 53\<close>, which is representable, is left as it is.
\<close>

definition rounding :: "(real \<Rightarrow> real) \<Rightarrow> bool" where
  "rounding rnd \<longleftrightarrow>
     mono rnd \<and> (\<forall>n::int. \<bar>n\<bar> \<le> 2 ^ 53 \<longrightarrow> rnd (of_int n) = of_int n)"

text \<open>Exact arithmetic: nothing is rounded.\<close>

definition exact :: "real \<Rightarrow> real" where
  "exact x = x"



text \<open>The conversion \<^verbatim>\<open>(double)i\<close> of an integer, explicit or implicit.\<close>

definition double_of_int :: "(real \<Rightarrow> real) \<Rightarrow> int \<Rightarrow> double" where
  "double_of_int rnd i = Fin (rnd (of_int i))"

text \<open>
  \<^verbatim>\<open>x / y\<close>. The sign of the quotient is that of \<open>x\<close> when \<open>y\<close> is positive and the opposite
  when \<open>y\<close> is negative, also where one of them is a zero or an infinity. A finite number
  other than zero divided by a zero is an infinity; zero by zero and infinity by infinity
  are NaN.
\<close>

definition ddiv :: "(real \<Rightarrow> real) \<Rightarrow> double \<Rightarrow> double \<Rightarrow> double" where
  "ddiv rnd x y =
     (if x = NaN \<or> y = NaN then NaN
      else if dfinite x \<and> dfinite y then
        (if dval y = 0 then
           (if dval x = 0 then NaN else if dsign x = dsign y then PInf else NInf)
         else if dval x = 0 \<and> dsign x \<noteq> dsign y then NZero
         else Fin (rnd (dval x / dval y)))
      else if dfinite x then (if dsign x = dsign y then Fin 0 else NZero)
      else if dfinite y then (if dsign x = dsign y then PInf else NInf)
      else NaN)"

text \<open>
  \<^verbatim>\<open>x + y\<close>. A sum that is exactly zero is the positive zero, but for the sum of two
  negative zeros. The sum of the two opposite infinities is NaN.
\<close>

definition dadd :: "(real \<Rightarrow> real) \<Rightarrow> double \<Rightarrow> double \<Rightarrow> double" where
  "dadd rnd x y =
     (if x = NaN \<or> y = NaN then NaN
      else if dfinite x \<and> dfinite y then
        (if x = NZero \<and> y = NZero then NZero else Fin (rnd (dval x + dval y)))
      else if dfinite x then y
      else if dfinite y then x
      else if x = y then x
      else NaN)"



text \<open>\<^verbatim>\<open>x == 0\<close> and \<^verbatim>\<open>x >= 0\<close>. Every comparison with a NaN is false.\<close>

fun dzero :: "double \<Rightarrow> bool" where
  "dzero (Fin x) = (x = 0)"
| "dzero NZero = True"
| "dzero PInf = False"
| "dzero NInf = False"
| "dzero NaN = False"


section \<open>The caller's variables\<close>

text \<open>
  \<^verbatim>\<open>GET_TIME(now)\<close> assigns to the variable its caller names. The caller's doubles are a
  store from names to values; an uninitialised variable holds whatever the store gives.
\<close>

type_synonym var = string

section \<open>The variant for POSIX: gettimeofday\<close>

text \<open>
  \<^verbatim>\<open>struct timeval\<close>. Its fields are of the signed integer types \<^verbatim>\<open>time_t\<close> and
  \<^verbatim>\<open>suseconds_t\<close>, 64 bits wide on LP64 (the values of a narrower type are among them).
\<close>

record timeval =
  tv_sec :: "64 word"
  tv_usec :: "64 word"

text \<open>
  The platform clock. The \<open>n\<close>-th call of \<^verbatim>\<open>gettimeofday(&t, NULL)\<close> in the life of the
  process returns \<open>gettimeofday_result n\<close>: the \<^verbatim>\<open>int\<close> it returns (0, or \<open>-1\<close> for a failure)
  and the contents of \<^verbatim>\<open>t\<close> when it has returned, whatever they are after a failure.
  \<open>gettimeofday_calls\<close> counts the calls made so far.
\<close>

record posix_clock =
  gettimeofday_result :: "nat \<Rightarrow> int \<times> timeval"
  gettimeofday_calls :: nat

record posix_state =
  pvars :: "var \<Rightarrow> double"
  pclock :: posix_clock

definition gettimeofday :: "posix_state \<Rightarrow> (int \<times> timeval) \<times> posix_state" where
  "gettimeofday s =
     (let c = pclock s
      in (gettimeofday_result c (gettimeofday_calls c),
          s\<lparr>pclock := c\<lparr>gettimeofday_calls := gettimeofday_calls c + 1\<rparr>\<rparr>))"

text \<open>
  \<^verbatim>\<open>
  #define GET_TIME(now) { \
      struct timeval t; \
      gettimeofday(&t, NULL); \
      now = t.tv_sec + t.tv_usec / 1000000.0; \
  }
  \<close>
  The value \<^verbatim>\<open>gettimeofday\<close> returns is dropped. Both fields are converted to double,
  the division and the addition are those of double. The block declares \<^verbatim>\<open>t\<close> itself, so
  the expansion reads no variable of the caller, and the argument \<^verbatim>\<open>t\<close> does not compile
  (\<^verbatim>\<open>gettimeofday\<close> is taken to denote the function): the call site does not matter here.
\<close>

definition GET_TIME_posix :: "(real \<Rightarrow> real) \<Rightarrow> var \<Rightarrow> posix_state \<Rightarrow> posix_state" where
  "GET_TIME_posix rnd now s =
     (let ((rc, t), s1) = gettimeofday s
      in s1\<lparr>pvars := (pvars s1)
              (now := dadd rnd (double_of_int rnd (sint (tv_sec t)))
                        (ddiv rnd (double_of_int rnd (sint (tv_usec t))) (Fin 1000000)))\<rparr>)"

text \<open>A sequence of calls, each with the variable its caller names.\<close>

fun calls_posix :: "(real \<Rightarrow> real) \<Rightarrow> var list \<Rightarrow> posix_state \<Rightarrow> posix_state" where
  "calls_posix rnd [] s = s"
| "calls_posix rnd (now # nows) s = calls_posix rnd nows (GET_TIME_posix rnd now s)"

section \<open>The variant for Windows: the performance counter\<close>

text \<open>\<^verbatim>\<open>LARGE_INTEGER\<close>: the code reads its member \<^verbatim>\<open>QuadPart\<close>, a signed 64-bit integer.\<close>

record LARGE_INTEGER =
  QuadPart :: "64 word"

text \<open>
  The platform. The \<open>n\<close>-th call of \<^verbatim>\<open>QueryPerformanceFrequency(&li)\<close> returns
  \<open>frequency_result n\<close>, the \<open>n\<close>-th call of \<^verbatim>\<open>QueryPerformanceCounter(&li)\<close> returns
  \<open>counter_result n\<close>: the \<^verbatim>\<open>BOOL\<close> of the call (false for a failure) and the contents of
  \<^verbatim>\<open>li\<close> when it has returned. The two counters count the calls made so far.
\<close>

record win_clock =
  frequency_result :: "nat \<Rightarrow> bool \<times> LARGE_INTEGER"
  frequency_calls :: nat
  counter_result :: "nat \<Rightarrow> bool \<times> LARGE_INTEGER"
  counter_calls :: nat

text \<open>
  The state that the calls of one translation unit work on: its
  \<^verbatim>\<open>static double frequency;\<close>, the variables of the callers, and the platform. The static
  has internal linkage, so every translation unit that includes the header has one of its
  own; the process with all of them follows below.
\<close>

record win_state =
  frequency :: double
  wvars :: "var \<Rightarrow> double"
  wclock :: win_clock

text \<open>An object of static storage duration without an initialiser starts as zero.\<close>

definition win_start :: "(var \<Rightarrow> double) \<Rightarrow> win_clock \<Rightarrow> win_state" where
  "win_start vs c =
     \<lparr>frequency = Fin 0, wvars = vs,
      wclock = c\<lparr>frequency_calls := 0, counter_calls := 0\<rparr>\<rparr>"

text \<open>
  \<^verbatim>\<open>GET_TIME\<close> is a macro: its body is expanded at the place of the call, and the two
  identifiers \<^verbatim>\<open>now\<close> (the argument) and \<^verbatim>\<open>frequency\<close> in it denote what they denote there.
  An object of type double is the static of the header or a variable of the caller.
\<close>

datatype place = Static | Caller var

fun read_double :: "win_state \<Rightarrow> place \<Rightarrow> double" where
  "read_double s Static = frequency s"
| "read_double s (Caller v) = wvars s v"

fun write_double :: "win_state \<Rightarrow> place \<Rightarrow> double \<Rightarrow> win_state" where
  "write_double s Static x = s\<lparr>frequency := x\<rparr>"
| "write_double s (Caller v) x = s\<lparr>wvars := (wvars s)(v := x)\<rparr>"

text \<open>
  A call site: the identifier written as the argument, and whether a variable of the
  caller named \<^verbatim>\<open>frequency\<close> is in scope there. Such a variable hides the static of the
  header: then \<^verbatim>\<open>frequency\<close> in the expansion is the caller's variable, as in
  \<^verbatim>\<open>{ double frequency = 7; GET_TIME(frequency); }\<close>. Without one, the argument
  \<^verbatim>\<open>frequency\<close> is the static itself. The function \<^verbatim>\<open>init_frequency\<close> is not expanded: it
  always assigns to the static. (The argument \<^verbatim>\<open>li\<close> does not compile, a double cannot be
  assigned to the \<^verbatim>\<open>LARGE_INTEGER\<close> of the block; the names of the three functions are
  taken to denote the functions.)
\<close>

record call_site =
  argument :: var
  local_frequency :: bool

definition frequency_place :: "call_site \<Rightarrow> place" where
  "frequency_place cs = (if local_frequency cs then Caller ''frequency'' else Static)"

definition now_place :: "call_site \<Rightarrow> place" where
  "now_place cs =
     (if argument cs = ''frequency'' then frequency_place cs else Caller (argument cs))"

text \<open>
  A call site is hygienic when the expansion means what the header means: \<^verbatim>\<open>frequency\<close>
  is the static, and the argument is a variable of the caller.
\<close>

definition hygienic :: "call_site \<Rightarrow> bool" where
  "hygienic cs \<longleftrightarrow> \<not> local_frequency cs \<and> argument cs \<noteq> ''frequency''"

definition QueryPerformanceFrequency ::
    "win_state \<Rightarrow> (bool \<times> LARGE_INTEGER) \<times> win_state" where
  "QueryPerformanceFrequency s =
     (let c = wclock s
      in (frequency_result c (frequency_calls c),
          s\<lparr>wclock := c\<lparr>frequency_calls := frequency_calls c + 1\<rparr>\<rparr>))"

definition QueryPerformanceCounter ::
    "win_state \<Rightarrow> (bool \<times> LARGE_INTEGER) \<times> win_state" where
  "QueryPerformanceCounter s =
     (let c = wclock s
      in (counter_result c (counter_calls c),
          s\<lparr>wclock := c\<lparr>counter_calls := counter_calls c + 1\<rparr>\<rparr>))"

text \<open>
  \<^verbatim>\<open>
  static void init_frequency() {
      LARGE_INTEGER li;
      QueryPerformanceFrequency(&li);
      frequency = (double)li.QuadPart;
  }
  \<close>
\<close>

definition init_frequency :: "(real \<Rightarrow> real) \<Rightarrow> win_state \<Rightarrow> win_state" where
  "init_frequency rnd s =
     (let ((ok, li), s1) = QueryPerformanceFrequency s
      in s1\<lparr>frequency := double_of_int rnd (sint (QuadPart li))\<rparr>)"

text \<open>
  \<^verbatim>\<open>
  #define GET_TIME(now) { \
      LARGE_INTEGER li; \
      if (frequency == 0) init_frequency(); \
      QueryPerformanceCounter(&li); \
      now = (double)li.QuadPart / frequency; \
  }
  \<close>
  The first statement of the block, then the whole block.
\<close>

definition lazy_init :: "(real \<Rightarrow> real) \<Rightarrow> call_site \<Rightarrow> win_state \<Rightarrow> win_state" where
  "lazy_init rnd cs s =
     (if dzero (read_double s (frequency_place cs)) then init_frequency rnd s else s)"

definition GET_TIME_win32 :: "(real \<Rightarrow> real) \<Rightarrow> call_site \<Rightarrow> win_state \<Rightarrow> win_state" where
  "GET_TIME_win32 rnd cs s =
     (let s1 = lazy_init rnd cs s;
          ((ok, li), s2) = QueryPerformanceCounter s1
      in write_double s2 (now_place cs)
           (ddiv rnd (double_of_int rnd (sint (QuadPart li)))
              (read_double s2 (frequency_place cs))))"

text \<open>The value a call at \<open>cs\<close> from the state \<open>s\<close> divides by.\<close>

definition divisor :: "(real \<Rightarrow> real) \<Rightarrow> call_site \<Rightarrow> win_state \<Rightarrow> double" where
  "divisor rnd cs s = read_double (lazy_init rnd cs s) (frequency_place cs)"

fun calls_win32 :: "(real \<Rightarrow> real) \<Rightarrow> call_site list \<Rightarrow> win_state \<Rightarrow> win_state" where
  "calls_win32 rnd [] s = s"
| "calls_win32 rnd (cs # css) s = calls_win32 rnd css (GET_TIME_win32 rnd cs s)"

text \<open>
  The process: one static for each translation unit that includes the header, which start
  as zero, and one platform. A call made in the unit \<open>u\<close> is the expansion of the macro
  there: it works on the static of \<open>u\<close>, and the \<^verbatim>\<open>init_frequency\<close> it calls is the one of \<open>u\<close>.
\<close>

record process =
  statics :: "nat \<Rightarrow> double"
  variables :: "var \<Rightarrow> double"
  platform :: win_clock

definition unit_state :: "process \<Rightarrow> nat \<Rightarrow> win_state" where
  "unit_state p u = \<lparr>frequency = statics p u, wvars = variables p, wclock = platform p\<rparr>"

definition process_start :: "(var \<Rightarrow> double) \<Rightarrow> win_clock \<Rightarrow> process" where
  "process_start vs c =
     \<lparr>statics = (\<lambda>u. Fin 0), variables = vs,
      platform = c\<lparr>frequency_calls := 0, counter_calls := 0\<rparr>\<rparr>"

definition GET_TIME_in :: "(real \<Rightarrow> real) \<Rightarrow> nat \<Rightarrow> call_site \<Rightarrow> process \<Rightarrow> process" where
  "GET_TIME_in rnd u cs p =
     (let s = GET_TIME_win32 rnd cs (unit_state p u)
      in \<lparr>statics = (statics p)(u := frequency s), variables = wvars s, platform = wclock s\<rparr>)"

fun calls_process ::
    "(real \<Rightarrow> real) \<Rightarrow> (nat \<times> call_site) list \<Rightarrow> process \<Rightarrow> process" where
  "calls_process rnd [] p = p"
| "calls_process rnd ((u, cs) # rest) p = calls_process rnd rest (GET_TIME_in rnd u cs p)"

section \<open>Clock readings and test doubles of the platform\<close>



text \<open>Caller's variables that were never assigned, and ones that all hold the value \<open>x\<close>.\<close>

definition unset :: "var \<Rightarrow> double" where
  "unset v = NaN"

definition filled :: "real \<Rightarrow> var \<Rightarrow> double" where
  "filled x v = Fin x"

text \<open>
  Call sites with the argument \<open>v\<close>: one where no variable of the caller is named
  \<^verbatim>\<open>frequency\<close>, and one in the scope of such a variable.
\<close>

definition plain :: "var \<Rightarrow> call_site" where
  "plain v = \<lparr>argument = v, local_frequency = False\<rparr>"

definition shadowing :: "var \<Rightarrow> call_site" where
  "shadowing v = \<lparr>argument = v, local_frequency = True\<rparr>"

text \<open>
  A clock of POSIX that reads 100.25 s, then 101.999999 s, and the same clock with every
  call reporting a failure.
\<close>

definition posix_test_clock :: posix_clock where
  "posix_test_clock =
     \<lparr>gettimeofday_result =
        (\<lambda>n. if n = 0 then (0, \<lparr>tv_sec = 100, tv_usec = 250000\<rparr>)
             else (0, \<lparr>tv_sec = 101, tv_usec = 999999\<rparr>)),
      gettimeofday_calls = 0\<rparr>"

definition posix_failing_clock :: posix_clock where
  "posix_failing_clock =
     \<lparr>gettimeofday_result =
        (\<lambda>n. if n = 0 then (- 1, \<lparr>tv_sec = 100, tv_usec = 250000\<rparr>)
             else (- 1, \<lparr>tv_sec = 101, tv_usec = 999999\<rparr>)),
      gettimeofday_calls = 0\<rparr>"



text \<open>
  Performance counters: the ticks read 5, then 20. The frequency is 10 ticks per second;
  or the same with every call reporting a failure; or 0 at every query, with a failure
  reported; or 0 at the first query and 10 from the second on; or \<open>-1\<close>.
\<close>

definition win_ticks :: "nat \<Rightarrow> bool \<times> LARGE_INTEGER" where
  "win_ticks n = (if n = 0 then (True, \<lparr>QuadPart = 5\<rparr>) else (True, \<lparr>QuadPart = 20\<rparr>))"

definition win_test_clock :: win_clock where
  "win_test_clock =
     \<lparr>frequency_result = (\<lambda>n. (True, \<lparr>QuadPart = 10\<rparr>)), frequency_calls = 0,
      counter_result = win_ticks, counter_calls = 0\<rparr>"

definition win_failing_clock :: win_clock where
  "win_failing_clock =
     \<lparr>frequency_result = (\<lambda>n. (False, \<lparr>QuadPart = 10\<rparr>)), frequency_calls = 0,
      counter_result = (\<lambda>n. (False, snd (win_ticks n))), counter_calls = 0\<rparr>"

definition win_zero_clock :: win_clock where
  "win_zero_clock =
     \<lparr>frequency_result = (\<lambda>n. (False, \<lparr>QuadPart = 0\<rparr>)), frequency_calls = 0,
      counter_result = win_ticks, counter_calls = 0\<rparr>"

definition win_late_clock :: win_clock where
  "win_late_clock =
     \<lparr>frequency_result =
        (\<lambda>n. if n = 0 then (False, \<lparr>QuadPart = 0\<rparr>) else (True, \<lparr>QuadPart = 10\<rparr>)),
      frequency_calls = 0,
      counter_result = win_ticks, counter_calls = 0\<rparr>"




section \<open>Basic facts of the operations of double\<close>

lemma ddiv_Fin [simp]:
  "ddiv rnd (Fin x) (Fin y) =
     (if y = 0 then (if 0 < x then PInf else if x < 0 then NInf else NaN)
      else if x = 0 \<and> y < 0 then NZero
      else Fin (rnd (x / y)))"
  by (auto simp: ddiv_def)

lemma dadd_Fin [simp]:
  "dadd rnd (Fin x) (Fin y) = Fin (rnd (x + y))"
  "dadd rnd (Fin x) NZero = Fin (rnd x)"
  by (simp_all add: dadd_def)

lemma dadd_infinite [simp]:
  "dadd rnd PInf NInf = NaN" "dadd rnd NInf PInf = NaN"
  "dadd rnd PInf PInf = PInf" "dadd rnd NInf NInf = NInf"
  by (simp_all add: dadd_def)

lemma ddiv_finite:
  "y \<noteq> 0 \<Longrightarrow> dfinite (ddiv rnd (Fin x) (Fin y))"
  by simp

lemma rounding_exact: "rounding exact"
  by (simp add: rounding_def mono_def exact_def)

section \<open>Basic facts of one call\<close>

lemma GET_TIME_posix_calls:
  "gettimeofday_calls (pclock (GET_TIME_posix rnd now s)) = gettimeofday_calls (pclock s) + 1"
  by (simp add: GET_TIME_posix_def gettimeofday_def Let_def split: prod.split)


lemma GET_TIME_posix_now:
  "pvars (GET_TIME_posix rnd now s) now =
     Fin (rnd (rnd (of_int (sint (tv_sec (snd (gettimeofday_result (pclock s)
                                            (gettimeofday_calls (pclock s)))))))
             + rnd (rnd (of_int (sint (tv_usec (snd (gettimeofday_result (pclock s)
                                            (gettimeofday_calls (pclock s))))))) / 1000000)))"
  by (simp add: GET_TIME_posix_def gettimeofday_def Let_def double_of_int_def split: prod.split)

lemma GET_TIME_posix_other:
  "v \<noteq> now \<Longrightarrow> pvars (GET_TIME_posix rnd now s) v = pvars s v"
  by (simp add: GET_TIME_posix_def gettimeofday_def Let_def split: prod.split)

lemma GET_TIME_posix_pvars:
  "pvars (GET_TIME_posix rnd now s) = (pvars s)(now := pvars (GET_TIME_posix rnd now s) now)"
  by (rule ext) (simp add: GET_TIME_posix_other)



lemma calls_posix_other:
  "v \<notin> set nows \<Longrightarrow> pvars (calls_posix rnd nows s) v = pvars s v"
  by (induction nows arbitrary: s) (simp_all add: GET_TIME_posix_other)

lemma win_start_simps:
  "frequency (win_start vs c) = Fin 0"
  "wvars (win_start vs c) = vs"
  "frequency_calls (wclock (win_start vs c)) = 0"
  "counter_calls (wclock (win_start vs c)) = 0"
  "frequency_result (wclock (win_start vs c)) = frequency_result c"
  "counter_result (wclock (win_start vs c)) = counter_result c"
  by (simp_all add: win_start_def)

lemma write_double_simps:
  "wclock (write_double s p x) = wclock s"
  "read_double (write_double s p x) p = x"
  "p \<noteq> Static \<Longrightarrow> frequency (write_double s p x) = frequency s"
  "p \<noteq> Caller v \<Longrightarrow> wvars (write_double s p x) v = wvars s v"
  by (cases p; simp)+


lemma init_frequency_simps:
  "frequency (init_frequency rnd s) =
     double_of_int rnd (sint (QuadPart (snd (frequency_result (wclock s)
                                              (frequency_calls (wclock s))))))"
  "wvars (init_frequency rnd s) = wvars s"
  "frequency_calls (wclock (init_frequency rnd s)) = frequency_calls (wclock s) + 1"
  "counter_calls (wclock (init_frequency rnd s)) = counter_calls (wclock s)"
  "frequency_result (wclock (init_frequency rnd s)) = frequency_result (wclock s)"
  "counter_result (wclock (init_frequency rnd s)) = counter_result (wclock s)"
  by (simp_all add: init_frequency_def QueryPerformanceFrequency_def Let_def split: prod.split)

lemma lazy_init_simps:
  "frequency (lazy_init rnd cs s) =
     (if dzero (read_double s (frequency_place cs))
      then double_of_int rnd (sint (QuadPart (snd (frequency_result (wclock s)
                                                    (frequency_calls (wclock s))))))
      else frequency s)"
  "wvars (lazy_init rnd cs s) = wvars s"
  "frequency_calls (wclock (lazy_init rnd cs s)) =
     frequency_calls (wclock s) + (if dzero (read_double s (frequency_place cs)) then 1 else 0)"
  "counter_calls (wclock (lazy_init rnd cs s)) = counter_calls (wclock s)"
  "frequency_result (wclock (lazy_init rnd cs s)) = frequency_result (wclock s)"
  "counter_result (wclock (lazy_init rnd cs s)) = counter_result (wclock s)"
  by (simp_all add: lazy_init_def init_frequency_simps)

lemma GET_TIME_win32_unfold:
  "GET_TIME_win32 rnd cs s =
     write_double
       ((lazy_init rnd cs s)\<lparr>wclock := (wclock (lazy_init rnd cs s))
          \<lparr>counter_calls := counter_calls (wclock (lazy_init rnd cs s)) + 1\<rparr>\<rparr>)
       (now_place cs)
       (ddiv rnd (double_of_int rnd (sint (QuadPart (snd (counter_result (wclock s)
                                                            (counter_calls (wclock s)))))))
          (divisor rnd cs s))"
proof -
  have "read_double ((lazy_init rnd cs s)\<lparr>wclock := c\<rparr>) p = read_double (lazy_init rnd cs s) p"
    for c p
    by (cases p) simp_all
  then show ?thesis
    by (simp add: GET_TIME_win32_def QueryPerformanceCounter_def Let_def divisor_def
        lazy_init_simps split: prod.split)
qed

lemma GET_TIME_win32_frequency_calls:
  "frequency_calls (wclock (GET_TIME_win32 rnd cs s)) =
     frequency_calls (wclock s) + (if dzero (read_double s (frequency_place cs)) then 1 else 0)"
  by (simp add: GET_TIME_win32_unfold write_double_simps lazy_init_simps)


lemma GET_TIME_win32_results:
  "frequency_result (wclock (GET_TIME_win32 rnd cs s)) = frequency_result (wclock s)"
  "counter_result (wclock (GET_TIME_win32 rnd cs s)) = counter_result (wclock s)"
  by (simp_all add: GET_TIME_win32_unfold write_double_simps lazy_init_simps)

lemma GET_TIME_win32_now:
  "read_double (GET_TIME_win32 rnd cs s) (now_place cs) =
     ddiv rnd (double_of_int rnd (sint (QuadPart (snd (counter_result (wclock s)
                                                        (counter_calls (wclock s)))))))
       (divisor rnd cs s)"
  by (simp add: GET_TIME_win32_unfold write_double_simps)

lemma GET_TIME_win32_other:
  "Caller v \<noteq> now_place cs \<Longrightarrow> wvars (GET_TIME_win32 rnd cs s) v = wvars s v"
  by (cases "now_place cs") (auto simp: GET_TIME_win32_unfold lazy_init_simps)

lemma now_place_cases:
  "now_place cs = Static \<or> now_place cs = Caller (argument cs)"
  by (simp add: now_place_def frequency_place_def)

lemma GET_TIME_win32_other_name:
  "v \<noteq> argument cs \<Longrightarrow> wvars (GET_TIME_win32 rnd cs s) v = wvars s v"
  using now_place_cases [of cs] by (auto intro: GET_TIME_win32_other)

lemma hygienic_places:
  "hygienic cs \<Longrightarrow> frequency_place cs = Static"
  "hygienic cs \<Longrightarrow> now_place cs = Caller (argument cs)"
  by (simp_all add: hygienic_def frequency_place_def now_place_def)

lemma divisor_static:
  "\<not> local_frequency cs \<Longrightarrow>
     divisor rnd cs s =
       (if dzero (frequency s)
        then double_of_int rnd (sint (QuadPart (snd (frequency_result (wclock s)
                                                      (frequency_calls (wclock s))))))
        else frequency s)"
  by (simp add: divisor_def frequency_place_def lazy_init_simps)

lemma GET_TIME_win32_frequency:
  "hygienic cs \<Longrightarrow>
     frequency (GET_TIME_win32 rnd cs s) =
       (if dzero (frequency s)
        then double_of_int rnd (sint (QuadPart (snd (frequency_result (wclock s)
                                                      (frequency_calls (wclock s))))))
        else frequency s)"
  by (simp add: GET_TIME_win32_unfold hygienic_places lazy_init_simps)

lemma GET_TIME_win32_hygienic_calls:
  "hygienic cs \<Longrightarrow>
     frequency_calls (wclock (GET_TIME_win32 rnd cs s)) =
       frequency_calls (wclock s) + (if dzero (frequency s) then 1 else 0)"
  by (simp add: GET_TIME_win32_frequency_calls hygienic_places)

section \<open>Facts of a sequence of calls\<close>



lemma calls_win32_other:
  "v \<notin> argument ` set css \<Longrightarrow> wvars (calls_win32 rnd css s) v = wvars s v"
  by (induction css arbitrary: s) (simp_all add: GET_TIME_win32_other_name)

lemma calls_win32_cached:
  "\<forall>cs \<in> set css. hygienic cs \<Longrightarrow> \<not> dzero (frequency s) \<Longrightarrow>
     frequency (calls_win32 rnd css s) = frequency s \<and>
     frequency_calls (wclock (calls_win32 rnd css s)) = frequency_calls (wclock s)"
  by (induction css arbitrary: s)
     (simp_all add: GET_TIME_win32_frequency GET_TIME_win32_hygienic_calls)

lemma calls_win32_always_zero:
  "\<forall>cs \<in> set css. hygienic cs \<Longrightarrow>
   \<forall>n. rnd (of_int (sint (QuadPart (snd (frequency_result (wclock s) n))))) = 0 \<Longrightarrow>
   dzero (frequency s) \<Longrightarrow>
     dzero (frequency (calls_win32 rnd css s)) \<and>
     frequency_calls (wclock (calls_win32 rnd css s)) = frequency_calls (wclock s) + length css"
  by (induction css arbitrary: s)
     (simp_all add: GET_TIME_win32_frequency GET_TIME_win32_hygienic_calls
        GET_TIME_win32_results double_of_int_def)

lemma calls_win32_start_cached:
  assumes "\<not> dzero (double_of_int rnd (sint (QuadPart (snd (frequency_result c 0)))))"
    and "hygienic cs" and "\<forall>cs \<in> set css. hygienic cs"
  shows "frequency (calls_win32 rnd css (GET_TIME_win32 rnd cs (win_start vs c))) =
           double_of_int rnd (sint (QuadPart (snd (frequency_result c 0)))) \<and>
         frequency_calls (wclock (calls_win32 rnd css (GET_TIME_win32 rnd cs (win_start vs c)))) = 1"
proof -
  let ?s = "GET_TIME_win32 rnd cs (win_start vs c)"
  have f: "frequency ?s = double_of_int rnd (sint (QuadPart (snd (frequency_result c 0))))"
    by (simp add: GET_TIME_win32_frequency [OF assms(2)] win_start_simps)
  have n: "frequency_calls (wclock ?s) = 1"
    by (simp add: GET_TIME_win32_hygienic_calls [OF assms(2)] win_start_simps)
  from assms(1) f have "\<not> dzero (frequency ?s)" by simp
  from calls_win32_cached [OF assms(3) this, of rnd] f n show ?thesis by simp
qed




text \<open>Calls that are all made in one translation unit are a run on the state of that unit.\<close>

lemma unit_state_start: "unit_state (process_start vs c) u = win_start vs c"
  by (simp add: unit_state_def process_start_def win_start_def)

lemma unit_state_GET_TIME_in:
  "unit_state (GET_TIME_in rnd u cs p) u = GET_TIME_win32 rnd cs (unit_state p u)"
  by (simp add: unit_state_def GET_TIME_in_def Let_def)

lemma unit_state_calls_process:
  "unit_state (calls_process rnd (map (Pair u) css) p) u = calls_win32 rnd css (unit_state p u)"
  by (induction css arbitrary: p) (simp_all add: unit_state_GET_TIME_in)

lemma calls_process_one_unit:
  "platform (calls_process rnd (map (Pair u) css) (process_start vs c)) =
     wclock (calls_win32 rnd css (win_start vs c))"
  "statics (calls_process rnd (map (Pair u) css) (process_start vs c)) u =
     frequency (calls_win32 rnd css (win_start vs c))"
  "variables (calls_process rnd (map (Pair u) css) (process_start vs c)) =
     wvars (calls_win32 rnd css (win_start vs c))"
proof -
  let ?p = "calls_process rnd (map (Pair u) css) (process_start vs c)"
  have e: "unit_state ?p u = calls_win32 rnd css (win_start vs c)"
    by (simp add: unit_state_calls_process unit_state_start)
  have "wclock (unit_state ?p u) = platform ?p" "frequency (unit_state ?p u) = statics ?p u"
    "wvars (unit_state ?p u) = variables ?p"
    by (simp_all add: unit_state_def)
  with e show "platform ?p = wclock (calls_win32 rnd css (win_start vs c))"
    "statics ?p u = frequency (calls_win32 rnd css (win_start vs c))"
    "variables ?p = wvars (calls_win32 rnd css (win_start vs c))"
    by simp_all
qed

section \<open>Facts of the rounding\<close>


























section \<open>Further facts of the calls\<close>





lemma GET_TIME_win32_wvars:
  "wvars (GET_TIME_win32 rnd cs w) =
     (wvars w)(argument cs := wvars (GET_TIME_win32 rnd cs w) (argument cs))"
  by (rule ext) (simp add: GET_TIME_win32_other_name)








section \<open>The properties of the specification\<close>

text \<open>
  C1. With \<^verbatim>\<open>gettimeofday\<close>, a call of \<^verbatim>\<open>GET_TIME\<close> takes exactly one reading of the platform
  clock, the next one, and the value it stores is \<^verbatim>\<open>tv_sec + tv_usec / 1000000.0\<close> of that
  reading: each field converted to double, the quotient and the sum each rounded once,
  always a finite number. In exact arithmetic it is seconds + microseconds / 1000000.
\<close>

theorem C1_posix_one_reading_combined:
  "gettimeofday_calls (pclock (GET_TIME_posix rnd now s)) = gettimeofday_calls (pclock s) + 1 \<and>
   (let t = snd (gettimeofday_result (pclock s) (gettimeofday_calls (pclock s)))
    in pvars (GET_TIME_posix rnd now s) now =
         Fin (rnd (rnd (of_int (sint (tv_sec t))) + rnd (rnd (of_int (sint (tv_usec t))) / 1000000))) \<and>
       pvars (GET_TIME_posix exact now s) now =
         Fin (of_int (sint (tv_sec t)) + of_int (sint (tv_usec t)) / 1000000))"
  by (simp add: GET_TIME_posix_calls GET_TIME_posix_now Let_def exact_def)




text \<open>
  C3 as it is written fails. The frequency is queried again on every call that finds
  \<^verbatim>\<open>frequency\<close> zero: on a platform whose query leaves 0 in \<^verbatim>\<open>li\<close> every time, two calls
  make two queries, and where the first query leaves 0 and the second 10 the cached
  constant changes from 0 to 10. In the scope of a caller's \<^verbatim>\<open>frequency\<close> the guard reads
  that variable: with the value 8 the first call makes no query, with the value 0 a later
  call queries again. And \<^verbatim>\<open>GET_TIME(frequency)\<close> on the static itself overwrites the cached
  10 with 20 / 10. And the constant is cached once in every translation unit that includes
  the header: with the frequency 10 and hygienic call sites, the first call in a second
  translation unit queries again.
\<close>

theorem C3_requeried_counterexample:
  "frequency_calls (wclock (calls_win32 exact [plain ''t1''] (win_start unset win_zero_clock))) = 1 \<and>
   frequency_calls (wclock (calls_win32 exact [plain ''t1'', plain ''t2'']
                              (win_start unset win_zero_clock))) = 2 \<and>
   frequency (calls_win32 exact [plain ''t1''] (win_start unset win_late_clock)) = Fin 0 \<and>
   frequency (calls_win32 exact [plain ''t1'', plain ''t2'']
                (win_start unset win_late_clock)) = Fin 10 \<and>
   frequency_calls (wclock (calls_win32 exact [shadowing ''frequency'']
                              (win_start (filled 8) win_test_clock))) = 0 \<and>
   frequency_calls (wclock (calls_win32 exact [plain ''t1'', shadowing ''frequency'']
                              (win_start (filled 0) win_test_clock))) = 2 \<and>
   frequency (calls_win32 exact [plain ''t1''] (win_start unset win_test_clock)) = Fin 10 \<and>
   frequency (calls_win32 exact [plain ''t1'', plain ''frequency'']
                (win_start unset win_test_clock)) = Fin 2 \<and>
   frequency_calls (platform (calls_process exact [(0, plain ''t1'')]
                                (process_start unset win_test_clock))) = 1 \<and>
   frequency_calls (platform (calls_process exact [(0, plain ''t1''), (1, plain ''t2'')]
                                (process_start unset win_test_clock))) = 2"
  by (simp add: GET_TIME_win32_def lazy_init_def init_frequency_def QueryPerformanceFrequency_def
      QueryPerformanceCounter_def Let_def win_start_def win_test_clock_def win_zero_clock_def
      win_late_clock_def win_ticks_def
      plain_def shadowing_def now_place_def frequency_place_def filled_def
      double_of_int_def exact_def GET_TIME_in_def unit_state_def process_start_def)

text \<open>
  C3, amended. Provided the first frequency query stores a value other than zero, every
  call site is hygienic and the calls are those of one translation unit: the query runs
  on the first call, and over every sequence of later calls the platform's frequency is
  never queried again and the cached constant never changes. So it is in a process whose
  calls are all made in the translation unit \<open>u\<close>.
\<close>

theorem C3_calibrated_once:
  assumes "\<not> dzero (double_of_int rnd (sint (QuadPart (snd (frequency_result c 0)))))"
    and "hygienic cs" and "\<forall>cs \<in> set css. hygienic cs"
  shows "frequency_calls (wclock (GET_TIME_win32 rnd cs (win_start vs c))) = 1 \<and>
         frequency_calls (wclock (calls_win32 rnd css (GET_TIME_win32 rnd cs (win_start vs c)))) = 1 \<and>
         frequency (calls_win32 rnd css (GET_TIME_win32 rnd cs (win_start vs c))) =
           frequency (GET_TIME_win32 rnd cs (win_start vs c)) \<and>
         frequency_calls (platform (calls_process rnd (map (Pair u) (cs # css))
                                      (process_start vs c))) = 1 \<and>
         statics (calls_process rnd (map (Pair u) (cs # css)) (process_start vs c)) u =
           frequency (GET_TIME_win32 rnd cs (win_start vs c))"
proof -
  have e: "\<forall>cs \<in> set []. hygienic cs" by simp
  have p: "platform (calls_process rnd (map (Pair u) (cs # css)) (process_start vs c)) =
      wclock (calls_win32 rnd css (GET_TIME_win32 rnd cs (win_start vs c)))"
    and s: "statics (calls_process rnd (map (Pair u) (cs # css)) (process_start vs c)) u =
      frequency (calls_win32 rnd css (GET_TIME_win32 rnd cs (win_start vs c)))"
    by (simp_all only: calls_process_one_unit calls_win32.simps)
  from calls_win32_start_cached [OF assms, of vs]
    calls_win32_start_cached [OF assms(1) assms(2) e, of vs]
  show ?thesis unfolding p s by simp
qed

theorem C3_witness:
  "\<not> dzero (double_of_int exact (sint (QuadPart (snd (frequency_result win_test_clock 0))))) \<and>
   hygienic (plain ''t1'') \<and> hygienic (plain ''t2'') \<and> hygienic (plain ''t3'') \<and>
   frequency_calls (wclock (calls_win32 exact [plain ''t2'', plain ''t3'']
      (GET_TIME_win32 exact (plain ''t1'') (win_start unset win_test_clock)))) = 1 \<and>
   frequency (calls_win32 exact [plain ''t2'', plain ''t3'']
      (GET_TIME_win32 exact (plain ''t1'') (win_start unset win_test_clock))) = Fin 10 \<and>
   frequency_calls (platform (calls_process exact
      [(0, plain ''t1''), (0, plain ''t2''), (0, plain ''t3'')]
      (process_start unset win_test_clock))) = 1"
proof -
  have h: "\<not> dzero (double_of_int exact (sint (QuadPart (snd (frequency_result win_test_clock 0)))))"
    by (simp add: win_test_clock_def double_of_int_def exact_def)
  have g: "hygienic (plain ''t1'')" "hygienic (plain ''t2'')" "hygienic (plain ''t3'')"
    by (simp_all add: hygienic_def plain_def)
  then have gs: "\<forall>cs \<in> set [plain ''t2'', plain ''t3'']. hygienic cs" by simp
  have f: "frequency (GET_TIME_win32 exact (plain ''t1'') (win_start unset win_test_clock)) = Fin 10"
    by (simp add: GET_TIME_win32_frequency [OF g(1)] win_start_simps win_test_clock_def
        double_of_int_def exact_def)
  from C3_calibrated_once [OF h g(1) gs, of unset 0] h g f show ?thesis
    by simp
qed






text \<open>
  C6. A call of \<^verbatim>\<open>GET_TIME\<close> changes no variable of its caller but the one named by its
  argument, at every call site. So the value a call stored in \<open>v\<close> is still there after
  every sequence of later calls whose arguments are other names.
\<close>

theorem C6_only_named_variable_written:
  "pvars (GET_TIME_posix rnd now s) = (pvars s)(now := pvars (GET_TIME_posix rnd now s) now) \<and>
   wvars (GET_TIME_win32 rnd cs w) =
     (wvars w)(argument cs := wvars (GET_TIME_win32 rnd cs w) (argument cs)) \<and>
   (v \<notin> set nows \<longrightarrow>
      pvars (calls_posix rnd nows (GET_TIME_posix rnd v s)) v = pvars (GET_TIME_posix rnd v s) v) \<and>
   (v \<notin> argument ` set css \<longrightarrow>
      wvars (calls_win32 rnd css (GET_TIME_win32 rnd cs w)) v = wvars (GET_TIME_win32 rnd cs w) v)"
  using GET_TIME_posix_pvars [of rnd now s] GET_TIME_win32_wvars [of rnd cs w]
  by (simp add: calls_posix_other calls_win32_other)

theorem C6_witness:
  "''start'' \<notin> set [''lap'', ''finish''] \<and>
   ''start'' \<notin> argument ` set [shadowing ''lap'', plain ''frequency''] \<and>
   pvars (calls_posix exact [''lap'', ''finish'']
            (GET_TIME_posix exact ''start'' \<lparr>pvars = unset, pclock = posix_test_clock\<rparr>)) ''start'' =
     Fin (100 + 1 / 4) \<and>
   wvars (calls_win32 exact [shadowing ''lap'', plain ''frequency'']
            (GET_TIME_win32 exact (plain ''start'') (win_start unset win_test_clock))) ''start'' =
     Fin (1 / 2)"
proof -
  have h: "''start'' \<notin> set [''lap'', ''finish'']"
    "''start'' \<notin> argument ` set [shadowing ''lap'', plain ''frequency'']"
    by (simp_all add: shadowing_def plain_def)
  have p: "pvars (GET_TIME_posix exact ''start'' \<lparr>pvars = unset, pclock = posix_test_clock\<rparr>) ''start'' =
      Fin (100 + 1 / 4)"
    by (simp add: GET_TIME_posix_now posix_test_clock_def exact_def)
  have n: "now_place (plain ''start'') = Caller ''start''"
    by (simp add: now_place_def plain_def)
  have "read_double (GET_TIME_win32 exact (plain ''start'') (win_start unset win_test_clock))
          (now_place (plain ''start'')) = Fin (1 / 2)"
    by (subst GET_TIME_win32_now)
       (simp add: divisor_static plain_def win_start_simps win_test_clock_def win_ticks_def
          double_of_int_def exact_def)
  then have w: "wvars (GET_TIME_win32 exact (plain ''start'') (win_start unset win_test_clock)) ''start'' =
      Fin (1 / 2)"
    by (simp add: n)
  from C6_only_named_variable_written [where rnd = exact and v = "''start''"
      and s = "\<lparr>pvars = unset, pclock = posix_test_clock\<rparr>"
      and w = "win_start unset win_test_clock" and nows = "[''lap'', ''finish'']"
      and cs = "plain ''start''" and css = "[shadowing ''lap'', plain ''frequency'']"] h p w
  show ?thesis by simp
qed

text \<open>
  C7 as it is written fails in the scope of a caller's \<^verbatim>\<open>frequency\<close>: with the same tick
  count 5 and the same cached state, \<^verbatim>\<open>GET_TIME(frequency)\<close> stores 5 / 8 where the variable
  held 8 and 5 / 4 where it held 4; and \<^verbatim>\<open>GET_TIME(now)\<close> stores 5 / 8 in that scope and
  5 / 10 outside it.
\<close>

theorem C7_shadowed_counterexample:
  "snd (counter_result (wclock (win_start (filled 8) win_test_clock))
         (counter_calls (wclock (win_start (filled 8) win_test_clock)))) =
   snd (counter_result (wclock (win_start (filled 4) win_test_clock))
         (counter_calls (wclock (win_start (filled 4) win_test_clock)))) \<and>
   frequency (win_start (filled 8) win_test_clock) = frequency (win_start (filled 4) win_test_clock) \<and>
   wvars (GET_TIME_win32 exact (shadowing ''frequency'') (win_start (filled 8) win_test_clock))
     ''frequency'' = Fin (5 / 8) \<and>
   wvars (GET_TIME_win32 exact (shadowing ''frequency'') (win_start (filled 4) win_test_clock))
     ''frequency'' = Fin (5 / 4) \<and>
   wvars (GET_TIME_win32 exact (shadowing ''now'') (win_start (filled 8) win_test_clock))
     ''now'' = Fin (5 / 8) \<and>
   wvars (GET_TIME_win32 exact (plain ''now'') (win_start (filled 8) win_test_clock))
     ''now'' = Fin (1 / 2)"
  by (simp add: GET_TIME_win32_def lazy_init_def init_frequency_def QueryPerformanceFrequency_def
      QueryPerformanceCounter_def Let_def win_start_def win_test_clock_def win_ticks_def
      plain_def shadowing_def now_place_def frequency_place_def filled_def
      double_of_int_def exact_def)

text \<open>
  C7, amended. With \<^verbatim>\<open>gettimeofday\<close>, two calls that get the same reading store the same
  value. With the performance counter, two calls at call sites where no variable of the
  caller hides the static, that get the same tick count, with the same cached frequency
  and, where that is zero, the same answer to the frequency query, store the same value.
  In both, whatever the arguments, the earlier values of the variables and the rest of the
  state.
\<close>

theorem C7_value_depends_on_reading_only:
  "(snd (gettimeofday_result (pclock s) (gettimeofday_calls (pclock s))) =
      snd (gettimeofday_result (pclock s') (gettimeofday_calls (pclock s'))) \<longrightarrow>
    pvars (GET_TIME_posix rnd now s) now = pvars (GET_TIME_posix rnd now' s') now') \<and>
   (\<not> local_frequency cs \<and> \<not> local_frequency cs' \<and>
    snd (counter_result (wclock w) (counter_calls (wclock w))) =
      snd (counter_result (wclock w') (counter_calls (wclock w'))) \<and>
    frequency w = frequency w' \<and>
    (dzero (frequency w) \<longrightarrow>
       snd (frequency_result (wclock w) (frequency_calls (wclock w))) =
       snd (frequency_result (wclock w') (frequency_calls (wclock w')))) \<longrightarrow>
    read_double (GET_TIME_win32 rnd cs w) (now_place cs) =
      read_double (GET_TIME_win32 rnd cs' w') (now_place cs'))"
  by (simp add: GET_TIME_posix_now GET_TIME_win32_now divisor_static)

theorem C7_witness:
  "snd (gettimeofday_result posix_test_clock 0) = snd (gettimeofday_result posix_failing_clock 0) \<and>
   pvars (GET_TIME_posix exact ''a'' \<lparr>pvars = unset, pclock = posix_test_clock\<rparr>) ''a'' =
   pvars (GET_TIME_posix exact ''b'' \<lparr>pvars = filled 8, pclock = posix_failing_clock\<rparr>) ''b'' \<and>
   \<not> local_frequency (plain ''a'') \<and> \<not> local_frequency (plain ''frequency'') \<and>
   wvars (GET_TIME_win32 exact (plain ''a'') (win_start unset win_test_clock)) ''a'' =
   frequency (GET_TIME_win32 exact (plain ''frequency'') (win_start (filled 8) win_failing_clock))"
proof -
  have h: "snd (gettimeofday_result posix_test_clock 0) = snd (gettimeofday_result posix_failing_clock 0)"
    by (simp add: posix_test_clock_def posix_failing_clock_def)
  have c: "gettimeofday_calls posix_test_clock = 0" "gettimeofday_calls posix_failing_clock = 0"
    by (simp_all add: posix_test_clock_def posix_failing_clock_def)
  have k: "snd (counter_result win_test_clock 0) = snd (counter_result win_failing_clock 0)"
    "snd (frequency_result win_test_clock 0) = snd (frequency_result win_failing_clock 0)"
    by (simp_all add: win_test_clock_def win_failing_clock_def)
  have l: "\<not> local_frequency (plain ''a'')" "\<not> local_frequency (plain ''frequency'')"
    by (simp_all add: plain_def)
  have n: "now_place (plain ''a'') = Caller ''a''" "now_place (plain ''frequency'') = Static"
    by (simp_all add: now_place_def frequency_place_def plain_def)
  from C7_value_depends_on_reading_only [where rnd = exact and now = "''a''" and now' = "''b''"
      and s = "\<lparr>pvars = unset, pclock = posix_test_clock\<rparr>"
      and s' = "\<lparr>pvars = filled 8, pclock = posix_failing_clock\<rparr>"
      and cs = "plain ''a''" and cs' = "plain ''frequency''"
      and w = "win_start unset win_test_clock"
      and w' = "win_start (filled 8) win_failing_clock"] h c k l
  show ?thesis by (simp add: win_start_simps n)
qed

text \<open>
  C8 as it is written fails in the scope of a caller's \<^verbatim>\<open>frequency\<close>: with the static at
  zero and the caller's variable at 8 a call makes no query; with the static at 10 after
  the first call and the caller's variable at 0, the second call queries again. And the
  guard tests the static of the translation unit of the call: with an answer of 10 that
  is stored every time, hygienic calls in three translation units make three queries.
\<close>

theorem C8_shadowed_counterexample:
  "dzero (frequency (win_start (filled 8) win_test_clock)) \<and>
   frequency_calls (wclock (GET_TIME_win32 exact (shadowing ''frequency'')
                              (win_start (filled 8) win_test_clock))) = 0 \<and>
   \<not> dzero (frequency (calls_win32 exact [plain ''t1''] (win_start (filled 0) win_test_clock))) \<and>
   frequency_calls (wclock (calls_win32 exact [plain ''t1'']
                              (win_start (filled 0) win_test_clock))) = 1 \<and>
   frequency_calls (wclock (calls_win32 exact [plain ''t1'', shadowing ''frequency'']
                              (win_start (filled 0) win_test_clock))) = 2 \<and>
   \<not> dzero (double_of_int exact (sint (QuadPart (snd (frequency_result win_test_clock 0))))) \<and>
   frequency_calls (platform (calls_process exact
                                [(0, plain ''t1''), (1, plain ''t1''), (2, plain ''t1'')]
                                (process_start unset win_test_clock))) = 3"
  by (simp add: GET_TIME_win32_def lazy_init_def init_frequency_def QueryPerformanceFrequency_def
      QueryPerformanceCounter_def Let_def win_start_def win_test_clock_def win_ticks_def
      plain_def shadowing_def now_place_def frequency_place_def filled_def
      double_of_int_def exact_def GET_TIME_in_def unit_state_def process_start_def)

text \<open>
  C8, amended. A call queries the frequency exactly when the double that \<^verbatim>\<open>frequency\<close>
  denotes at the call site is zero at the start of the call, and then the static holds
  what the query left; that double is the static unless a variable of the caller hides
  it. So over hygienic call sites of one translation unit, from the start of the process,
  the query runs at most once if its first answer is stored as a value other than zero;
  and if every answer is stored as zero, it runs again on every call. So it is in a
  process whose calls are all made in the translation unit \<open>u\<close>.
\<close>

theorem C8_guard_is_zero_test:
  "frequency_calls (wclock (GET_TIME_win32 rnd cs s)) =
     frequency_calls (wclock s) + (if dzero (read_double s (frequency_place cs)) then 1 else 0) \<and>
   frequency (lazy_init rnd cs s) =
     (if dzero (read_double s (frequency_place cs))
      then double_of_int rnd (sint (QuadPart (snd (frequency_result (wclock s)
                                                    (frequency_calls (wclock s))))))
      else frequency s) \<and>
   (\<not> local_frequency cs \<longrightarrow> read_double s (frequency_place cs) = frequency s) \<and>
   ((\<forall>cs \<in> set css. hygienic cs) \<and>
    \<not> dzero (double_of_int rnd (sint (QuadPart (snd (frequency_result c 0))))) \<longrightarrow>
      frequency_calls (wclock (calls_win32 rnd css (win_start vs c))) \<le> 1) \<and>
   ((\<forall>cs \<in> set css. hygienic cs) \<and>
    (\<forall>n. dzero (double_of_int rnd (sint (QuadPart (snd (frequency_result c n)))))) \<longrightarrow>
      frequency_calls (wclock (calls_win32 rnd css (win_start vs c))) = length css) \<and>
   platform (calls_process rnd (map (Pair u) css) (process_start vs c)) =
     wclock (calls_win32 rnd css (win_start vs c))"
proof (intro conjI impI)
  show "frequency_calls (wclock (GET_TIME_win32 rnd cs s)) =
     frequency_calls (wclock s) + (if dzero (read_double s (frequency_place cs)) then 1 else 0)"
    by (rule GET_TIME_win32_frequency_calls)
  show "frequency (lazy_init rnd cs s) =
     (if dzero (read_double s (frequency_place cs))
      then double_of_int rnd (sint (QuadPart (snd (frequency_result (wclock s)
                                                    (frequency_calls (wclock s))))))
      else frequency s)"
    by (rule lazy_init_simps)
next
  assume "\<not> local_frequency cs"
  then show "read_double s (frequency_place cs) = frequency s"
    by (simp add: frequency_place_def)
next
  assume a: "(\<forall>cs \<in> set css. hygienic cs) \<and>
    \<not> dzero (double_of_int rnd (sint (QuadPart (snd (frequency_result c 0)))))"
  show "frequency_calls (wclock (calls_win32 rnd css (win_start vs c))) \<le> 1"
  proof (cases css)
    case Nil
    then show ?thesis by (simp add: win_start_simps)
  next
    case (Cons cs' rest)
    with a have "hygienic cs'" "\<forall>cs \<in> set rest. hygienic cs"
      and "\<not> dzero (double_of_int rnd (sint (QuadPart (snd (frequency_result c 0)))))"
      by simp_all
    from calls_win32_start_cached [OF this(3) this(1) this(2), of vs] Cons show ?thesis
      by simp
  qed
next
  assume a: "(\<forall>cs \<in> set css. hygienic cs) \<and>
    (\<forall>n. dzero (double_of_int rnd (sint (QuadPart (snd (frequency_result c n))))))"
  then have h: "\<forall>cs \<in> set css. hygienic cs" by simp
  have z: "\<forall>n. rnd (of_int (sint (QuadPart (snd (frequency_result (wclock (win_start vs c)) n))))) = 0"
    using a by (simp add: win_start_simps double_of_int_def)
  from calls_win32_always_zero [OF h z]
  show "frequency_calls (wclock (calls_win32 rnd css (win_start vs c))) = length css"
    by (simp add: win_start_simps)
next
  show "platform (calls_process rnd (map (Pair u) css) (process_start vs c)) =
     wclock (calls_win32 rnd css (win_start vs c))"
    by (rule calls_process_one_unit)
qed

theorem C8_witness:
  "hygienic (plain ''t1'') \<and> hygienic (plain ''t2'') \<and> hygienic (plain ''t3'') \<and>
   \<not> dzero (double_of_int exact (sint (QuadPart (snd (frequency_result win_test_clock 0))))) \<and>
   frequency_calls (wclock (calls_win32 exact [plain ''t1'', plain ''t2'', plain ''t3'']
                              (win_start unset win_test_clock))) \<le> 1 \<and>
   (\<forall>n. dzero (double_of_int exact (sint (QuadPart (snd (frequency_result win_zero_clock n)))))) \<and>
   frequency_calls (wclock (calls_win32 exact [plain ''t1'', plain ''t2'', plain ''t3'']
                              (win_start unset win_zero_clock))) = 3"
proof -
  have g: "\<forall>cs \<in> set [plain ''t1'', plain ''t2'', plain ''t3'']. hygienic cs"
    by (simp add: hygienic_def plain_def)
  have h1: "\<not> dzero (double_of_int exact (sint (QuadPart (snd (frequency_result win_test_clock 0)))))"
    by (simp add: win_test_clock_def double_of_int_def exact_def)
  have h2: "\<forall>n. dzero (double_of_int exact (sint (QuadPart (snd (frequency_result win_zero_clock n)))))"
    by (simp add: win_zero_clock_def double_of_int_def exact_def)
  note a = C8_guard_is_zero_test [where rnd = exact and c = win_test_clock and vs = unset
      and css = "[plain ''t1'', plain ''t2'', plain ''t3'']",
      THEN conjunct2, THEN conjunct2, THEN conjunct2, THEN conjunct1]
  note b = C8_guard_is_zero_test [where rnd = exact and c = win_zero_clock and vs = unset
      and css = "[plain ''t1'', plain ''t2'', plain ''t3'']",
      THEN conjunct2, THEN conjunct2, THEN conjunct2, THEN conjunct2, THEN conjunct1]
  from a g h1 have 1: "frequency_calls (wclock (calls_win32 exact [plain ''t1'', plain ''t2'', plain ''t3'']
                              (win_start unset win_test_clock))) \<le> 1"
    by blast
  from b g h2 have 2: "frequency_calls (wclock (calls_win32 exact [plain ''t1'', plain ''t2'', plain ''t3'']
                              (win_start unset win_zero_clock))) =
      length [plain ''t1'', plain ''t2'', plain ''t3'']"
    by blast
  from 1 2 g h1 h2 show ?thesis by simp
qed




text \<open>
  C10. With \<^verbatim>\<open>gettimeofday\<close>, in exact arithmetic: for a reading whose microseconds are
  between 0 and 999999, the term microseconds / 1000000 is in \<open>[0, 1)\<close> and the value
  stored is in \<open>[seconds, seconds + 1)\<close>.
\<close>

theorem C10_posix_within_second:
  assumes "t = snd (gettimeofday_result (pclock s) (gettimeofday_calls (pclock s)))"
    and "0 \<le> sint (tv_usec t)" and "sint (tv_usec t) \<le> 999999"
  shows "\<exists>f x. ddiv exact (double_of_int exact (sint (tv_usec t))) (Fin 1000000) = Fin f \<and>
           0 \<le> f \<and> f < 1 \<and>
           pvars (GET_TIME_posix exact now s) now = Fin x \<and>
           of_int (sint (tv_sec t)) \<le> x \<and> x < of_int (sint (tv_sec t)) + 1"
proof -
  let ?f = "real_of_int (sint (tv_usec t)) / 1000000"
  from assms(2) have lo: "0 \<le> ?f" by (simp del: of_int_sint)
  from assms(3) have "real_of_int (sint (tv_usec t)) < 1000000" by linarith
  then have hi: "?f < 1" by (simp del: of_int_sint)
  have d: "ddiv exact (double_of_int exact (sint (tv_usec t))) (Fin 1000000) = Fin ?f"
    by (simp add: double_of_int_def exact_def)
  have v: "pvars (GET_TIME_posix exact now s) now = Fin (of_int (sint (tv_sec t)) + ?f)"
    by (simp add: GET_TIME_posix_now assms(1) exact_def)
  from lo have a: "real_of_int (sint (tv_sec t)) \<le> of_int (sint (tv_sec t)) + ?f"
    by linarith
  from hi have b: "of_int (sint (tv_sec t)) + ?f < real_of_int (sint (tv_sec t)) + 1"
    by linarith
  from lo hi d v a b show ?thesis by blast
qed

theorem C10_witness:
  "0 \<le> sint (tv_usec (snd (gettimeofday_result posix_test_clock 0))) \<and>
   sint (tv_usec (snd (gettimeofday_result posix_test_clock 0))) \<le> 999999 \<and>
   (\<exists>x. pvars (GET_TIME_posix exact ''now'' \<lparr>pvars = unset, pclock = posix_test_clock\<rparr>) ''now'' = Fin x \<and>
        100 \<le> x \<and> x < 101)"
proof -
  have c: "gettimeofday_calls posix_test_clock = 0"
    by (simp add: posix_test_clock_def)
  have t: "snd (gettimeofday_result posix_test_clock 0) = \<lparr>tv_sec = 100, tv_usec = 250000\<rparr>"
    by (simp add: posix_test_clock_def)
  have h0: "snd (gettimeofday_result posix_test_clock 0) =
      snd (gettimeofday_result (pclock \<lparr>pvars = unset, pclock = posix_test_clock\<rparr>)
            (gettimeofday_calls (pclock \<lparr>pvars = unset, pclock = posix_test_clock\<rparr>)))"
    by (simp add: c)
  have h1: "0 \<le> sint (tv_usec (snd (gettimeofday_result posix_test_clock 0)))"
    by (simp add: t)
  have h2: "sint (tv_usec (snd (gettimeofday_result posix_test_clock 0))) \<le> 999999"
    by (simp add: t)
  from C10_posix_within_second [OF h0 h1 h2, of "''now''"] h1 h2 show ?thesis
    by (auto simp: t)
qed

end
